theory Spec2Isabelle
  imports Main
begin

section \<open>Ledger values\<close>

text \<open>
  Addresses, key pairs and thrown values of the client. A thrown value is either an
  \<open>Error\<close> object with its message or some other value (\<open>error instanceof Error\<close>
  is false and \<open>error.message\<close> is undefined for it).
\<close>

datatype pubkey = PublicKey string

datatype keypair = Keypair (keypair_publicKey: pubkey) (keypair_secretKey: string)

datatype jserror = Error string | NonError

text \<open>Library constants of the token and system programs.\<close>

definition TOKEN_PROGRAM_ID :: pubkey where
  "TOKEN_PROGRAM_ID = PublicKey ''TokenkegQfeZyiNwAJbNbGKPFXCWuBvf9Ss623VQ5DA''"

definition SystemProgram_programId :: pubkey where
  "SystemProgram_programId = PublicKey ''11111111111111111111111111111111''"

definition SYSVAR_RENT_PUBKEY :: pubkey where
  "SYSVAR_RENT_PUBKEY = PublicKey ''SysvarRent111111111111111111111111111111111''"

definition MINT_SIZE :: nat where
  "MINT_SIZE = 82"

text \<open>\<open>stablecoin-program.ts\<close>, line 19.\<close>

definition PROGRAM_ID :: pubkey where
  "PROGRAM_ID = PublicKey ''CGnwq4D9qErCRjPujz5MVkMaixR8BLRACpAmLWsqoRRe''"

section \<open>Instructions and the transaction envelope\<close>

text \<open>
  The three instructions of the creation flow. \<open>SystemCreateAccount\<close> carries
  \<open>fromPubkey\<close>, \<open>newAccountPubkey\<close>, \<open>space\<close>, \<open>lamports\<close>, \<open>programId\<close>;
  \<open>InitializeMint\<close> carries the mint, the decimals, the mint authority and the freeze
  authority; \<open>CreateStablecoinIx\<close> carries the five arguments
  \<open>(name, symbol, decimals, iconUrl, targetCurrency)\<close> and the account keys in wire order.
\<close>

datatype instruction =
    SystemCreateAccount pubkey pubkey nat nat pubkey
  | InitializeMint pubkey nat pubkey pubkey
  | CreateStablecoinIx string string nat string string "pubkey list"

datatype ixKind = KCreateAccount | KInitializeMint | KCreateStablecoin

fun kind :: "instruction \<Rightarrow> ixKind" where
  "kind (SystemCreateAccount _ _ _ _ _) = KCreateAccount"
| "kind (InitializeMint _ _ _ _) = KInitializeMint"
| "kind (CreateStablecoinIx _ _ _ _ _ _) = KCreateStablecoin"

fun decimalsOf :: "instruction \<Rightarrow> nat list" where
  "decimalsOf (SystemCreateAccount _ _ _ _ _) = []"
| "decimalsOf (InitializeMint _ d _ _) = [d]"
| "decimalsOf (CreateStablecoinIx _ _ d _ _ _) = [d]"

fun accountKeys :: "instruction \<Rightarrow> pubkey list" where
  "accountKeys (CreateStablecoinIx _ _ _ _ _ ks) = ks"
| "accountKeys _ = []"

record latestBlockhash =
  blockhash :: string
  lastValidBlockHeight :: nat

text \<open>
  The fields of a \<open>Transaction\<close> object that the flow touches; \<open>signatures\<close> lists
  the public keys that have signed so far.
\<close>

record transaction =
  feePayer :: "pubkey option"
  recentBlockhash :: "string option"
  tx_lastValidBlockHeight :: "nat option"
  instructions :: "instruction list"
  signatures :: "pubkey list"

text \<open>\<open>new Transaction({feePayer, blockhash, lastValidBlockHeight})\<close>\<close>

definition newTransaction :: "pubkey \<Rightarrow> string \<Rightarrow> nat \<Rightarrow> transaction" where
  "newTransaction fp bh h =
     \<lparr>feePayer = Some fp, recentBlockhash = Some bh, tx_lastValidBlockHeight = Some h,
      instructions = [], signatures = []\<rparr>"

text \<open>\<open>transaction.add(...items)\<close> appends the items in argument order.\<close>

definition transaction_add :: "transaction \<Rightarrow> instruction list \<Rightarrow> transaction" where
  "transaction_add tx ixs = tx\<lparr>instructions := instructions tx @ ixs\<rparr>"

text \<open>\<open>transaction.sign(...signers)\<close> replaces the signatures by those of the signers.\<close>

definition transaction_sign :: "transaction \<Rightarrow> keypair list \<Rightarrow> transaction" where
  "transaction_sign tx signers = tx\<lparr>signatures := map keypair_publicKey signers\<rparr>"

section \<open>The component's inputs\<close>

record formData =
  name :: string
  symbol :: string
  currency :: string
  icon :: string
  bondMint :: string

text \<open>
  What the hooks give the component: the wallet's public key (\<open>null\<close> when no wallet is
  connected) and whether a connection handle is present.
\<close>

record hooks =
  publicKey :: "pubkey option"
  hasConnection :: bool

text \<open>The parameter object of the first \<open>handleSubmit\<close>'s call of \<open>program.createStablecoin\<close>.\<close>

record programCall =
  pc_name :: string
  pc_symbol :: string
  pc_decimals :: nat
  pc_iconUrl :: string
  pc_targetCurrency :: string
  pc_bondMint :: pubkey
  pc_stablecoinData :: pubkey
  pc_stablecoinMint :: pubkey
  pc_signers :: "keypair list"

text \<open>
  One entry of \<open>tokenAccounts.value\<close>; the field is
  \<open>account.data.parsed.info.tokenAmount.uiAmount\<close>, a number or \<open>null\<close>.
\<close>

record 'n tokenAccount =
  uiAmount :: "'n option"

text \<open>
  The error payload of a confirmation as the ledger library types it: the name of an
  error, a non-empty string, or an object, kept here as its JSON text. \<open>toString()\<close> of
  a string is the string; an object has no \<open>toString\<close> of its own and answers with the
  fixed text of \<open>Object.prototype.toString\<close>.
\<close>

datatype transactionError = ErrorName string | ErrorObject string

fun transactionError_toString :: "transactionError \<Rightarrow> string" where
  "transactionError_toString (ErrorName s) = s"
| "transactionError_toString (ErrorObject json) = ''[object Object]''"

section \<open>Events and the environment\<close>

text \<open>
  Every call that leaves the component is an event of the attempt's trace, in the order
  the source makes the calls. Console output is not modelled.
\<close>

datatype event =
    SetLoading bool
  | KeypairGenerate keypair
  | NewPublicKey string
  | GetLatestBlockhash "jserror + latestBlockhash"
  | NewTransaction pubkey string nat
  | GetMinimumBalanceForRentExemptMint
  | TransactionAdd "instruction list"
  | TransactionSign "keypair list"
  | WalletSendTransaction transaction "keypair list"
  | ConfirmTransaction string string nat
  | ProgramCreateStablecoin programCall
  | SetRecentBlockhash string
  | SetFeePayer pubkey
  | WalletSignTransaction transaction
  | SendRawTransaction transaction
  | GetParsedTokenAccountsByOwner pubkey pubkey
  | ToastError string
  | ToastSuccess string

text \<open>
  The collaborators: the address parser of the ledger library, the source of randomness,
  the RPC node and the wallet. A call made when the attempt's clock shows \<open>t\<close> gets the
  answer the environment has for time \<open>t\<close>, so two calls of one RPC method may be answered
  differently. \<open>Inl\<close> is a thrown value. \<open>programCreateStablecoin\<close> is the method the first
  \<open>handleSubmit\<close> calls with its parameter object. \<open>confirmTransaction\<close> answers with
  \<open>value.err\<close>, which the source tests for truthiness: \<open>None\<close> is \<open>null\<close>, \<open>Some e\<close> an
  error payload (an object or a non-empty string), whose \<open>toString()\<close> is
  \<open>errToString e\<close>. \<open>walletSignTransaction\<close> answers with the signatures on the
  transaction the wallet hands back; \<open>sendRawTransaction\<close> stands for serialising and
  sending it. \<open>instructionEncode\<close> is the instruction coder of the program library, which
  \<open>.instruction()\<close> calls on the five arguments of \<open>createStablecoin\<close>: it throws when
  they cannot be encoded (a decimals value that does not fit the 8-bit field, arguments
  that overrun the coder's buffer).
\<close>

record ('e, 'n) env =
  newPublicKey :: "string \<Rightarrow> jserror + pubkey"
  keypairGenerate :: "nat \<Rightarrow> keypair"
  getLatestBlockhash :: "nat \<Rightarrow> jserror + latestBlockhash"
  getMinimumBalanceForRentExemptMint :: "nat \<Rightarrow> jserror + nat"
  walletSendTransaction :: "nat \<Rightarrow> transaction \<Rightarrow> jserror + string"
  confirmTransaction :: "nat \<Rightarrow> string \<Rightarrow> string \<Rightarrow> nat \<Rightarrow> jserror + 'e option"
  errToString :: "'e \<Rightarrow> string"
  programCreateStablecoin :: "nat \<Rightarrow> programCall \<Rightarrow> jserror + string"
  walletSignTransaction :: "nat \<Rightarrow> transaction \<Rightarrow> jserror + pubkey list"
  sendRawTransaction :: "nat \<Rightarrow> transaction \<Rightarrow> jserror + string"
  getParsedTokenAccountsByOwner :: "nat \<Rightarrow> pubkey \<Rightarrow> pubkey \<Rightarrow> jserror + 'n tokenAccount list"
  instructionEncode :: "string \<Rightarrow> string \<Rightarrow> nat \<Rightarrow> string \<Rightarrow> string \<Rightarrow> jserror + unit"

section \<open>The balance precondition: \<open>checkBondBalance\<close>\<close>

text \<open>
  \<open>CreateStablecoin.tsx\<close>, lines 411 to 443. The body of the \<open>try\<close> block returns the
  value given to \<open>setBondBalance\<close>, or the thrown value; \<open>t\<close> is the clock at the call.
\<close>

definition checkBondBalance_try ::
  "('e, 'n::zero) env \<Rightarrow> pubkey \<Rightarrow> string \<Rightarrow> nat \<Rightarrow> event list \<times> (jserror + 'n option)" where
  "checkBondBalance_try env owner bondMintStr t =
     (case newPublicKey env bondMintStr of
        Inl err \<Rightarrow> ([NewPublicKey bondMintStr], Inl err)
      | Inr bondMintPubkey \<Rightarrow>
          (let tr = [NewPublicKey bondMintStr, GetParsedTokenAccountsByOwner owner bondMintPubkey]
           in case getParsedTokenAccountsByOwner env (t + 1) owner bondMintPubkey of
                Inl err \<Rightarrow> (tr, Inl err)
              | Inr tokenAccounts \<Rightarrow>
                  if length tokenAccounts > 0
                  then (case tokenAccounts of
                          a # _ \<Rightarrow> (tr, Inr (uiAmount a))
                        | [] \<Rightarrow> (tr, Inl (Error ''Cannot read properties of undefined'')))
                  else (tr, Inr (Some 0))))"

text \<open>
  The whole function: the guard, the \<open>try\<close> block and its \<open>catch\<close>, which sets the
  balance to 0. The result is the trace and the new value of the \<open>bondBalance\<close> state;
  nothing is thrown to the caller.
\<close>

definition checkBondBalance ::
  "('e, 'n::zero) env \<Rightarrow> hooks \<Rightarrow> string \<Rightarrow> 'n option \<Rightarrow> nat \<Rightarrow> event list \<times> 'n option" where
  "checkBondBalance env h bondMintStr bondBalance t =
     (case publicKey h of
        None \<Rightarrow> ([], bondBalance)
      | Some owner \<Rightarrow>
          if \<not> hasConnection h then ([], bondBalance)
          else (case checkBondBalance_try env owner bondMintStr t of
                  (tr, Inr balance) \<Rightarrow> (tr, balance)
                | (tr, Inl err) \<Rightarrow> (tr, Some 0)))"

section \<open>The instruction builder of \<open>stablecoin-program.ts\<close>\<close>

text \<open>
  Modelled from the spec: the account list of the \<open>createStablecoin\<close> method in the
  program's interface description (\<open>./idl/stablecoin_factory\<close>, which is not among the
  sources). The spec gives the wire order as authority, stablecoinData, stablecoinMint,
  bondMint, token-program, system-program, rent-sysvar; the names are those the source
  binds in \<open>.accounts({...})\<close>.
\<close>

definition IDL_createStablecoin_accounts :: "string list" where
  "IDL_createStablecoin_accounts =
     [''authority'', ''stablecoinData'', ''stablecoinMint'', ''bondMint'',
      ''tokenProgram'', ''systemProgram'', ''rent'']"

text \<open>
  \<open>.accounts(obj).instruction()\<close> looks every account of the interface description up in
  the object by name, and throws when one is missing.
\<close>

fun resolveAccounts :: "string list \<Rightarrow> (string \<times> pubkey) list \<Rightarrow> jserror + pubkey list" where
  "resolveAccounts [] obj = Inr []"
| "resolveAccounts (n # ns) obj =
     (case map_of obj n of
        None \<Rightarrow> Inl (Error (''Invalid arguments: '' @ n @ '' not provided.''))
      | Some k \<Rightarrow>
          (case resolveAccounts ns obj of
             Inl err \<Rightarrow> Inl err
           | Inr ks \<Rightarrow> Inr (k # ks)))"

text \<open>
  \<open>program.methods.createStablecoin(...).accounts(obj).instruction()\<close>: the accounts are
  resolved, then the arguments are encoded; either step may throw.
\<close>

definition methods_createStablecoin ::
  "('e, 'n) env \<Rightarrow> string \<Rightarrow> string \<Rightarrow> nat \<Rightarrow> string \<Rightarrow> string \<Rightarrow> (string \<times> pubkey) list \<Rightarrow>
     jserror + instruction" where
  "methods_createStablecoin env a_name a_symbol a_decimals a_iconUrl a_targetCurrency obj =
     (case resolveAccounts IDL_createStablecoin_accounts obj of
        Inl err \<Rightarrow> Inl err
      | Inr ks \<Rightarrow>
          (case instructionEncode env a_name a_symbol a_decimals a_iconUrl a_targetCurrency of
             Inl err \<Rightarrow> Inl err
           | Inr _ \<Rightarrow>
               Inr (CreateStablecoinIx a_name a_symbol a_decimals a_iconUrl a_targetCurrency ks)))"

record createStablecoinParams =
  p_name :: string
  p_symbol :: string
  p_decimals :: nat
  p_iconUrl :: string
  p_targetCurrency :: string
  p_authority :: pubkey
  p_stablecoinData :: pubkey
  p_stablecoinMint :: pubkey
  p_bondMint :: pubkey

text \<open>
  \<open>StablecoinProgram.createStablecoin\<close>, lines 76 to 105. The object given to
  \<open>.accounts\<close>, lines 95 to 103, is an association list in the order the source writes
  its keys.
\<close>

definition createStablecoin_accounts :: "createStablecoinParams \<Rightarrow> (string \<times> pubkey) list" where
  "createStablecoin_accounts params =
     [(''authority'', p_authority params),
      (''stablecoinData'', p_stablecoinData params),
      (''stablecoinMint'', p_stablecoinMint params),
      (''bondMint'', p_bondMint params),
      (''tokenProgram'', TOKEN_PROGRAM_ID),
      (''systemProgram'', SystemProgram_programId),
      (''rent'', SYSVAR_RENT_PUBKEY)]"

definition createStablecoin ::
  "('e, 'n) env \<Rightarrow> createStablecoinParams \<Rightarrow> jserror + instruction" where
  "createStablecoin env params =
     methods_createStablecoin env
       (p_name params) (p_symbol params) (p_decimals params) (p_iconUrl params)
       (p_targetCurrency params) (createStablecoin_accounts params)"

text \<open>
  \<open>StablecoinProgram.sendTransaction\<close>, lines 107 to 127. \<open>walletPk\<close> is
  \<open>this.anchorWallet.publicKey\<close>. The \<open>catch\<close> logs and rethrows. The answer of
  \<open>confirmTransaction\<close> is not inspected.
\<close>

definition sendTransaction ::
  "('e, 'n) env \<Rightarrow> pubkey \<Rightarrow> transaction \<Rightarrow> nat \<Rightarrow> event list \<times> (jserror + string)" where
  "sendTransaction env walletPk tx t =
     (case getLatestBlockhash env t of
        Inl err \<Rightarrow> ([GetLatestBlockhash (Inl err)], Inl err)
      | Inr latest \<Rightarrow>
          (let tx1 = tx\<lparr>recentBlockhash := Some (blockhash latest)\<rparr>;
               tx2 = tx1\<lparr>feePayer := Some walletPk\<rparr>;
               tr3 = [GetLatestBlockhash (Inr latest), SetRecentBlockhash (blockhash latest),
                      SetFeePayer walletPk, WalletSignTransaction tx2]
           in case walletSignTransaction env (t + 3) tx2 of
                Inl err \<Rightarrow> (tr3, Inl err)
              | Inr sigs \<Rightarrow>
                  (let signed = tx2\<lparr>signatures := sigs\<rparr>;
                       tr4 = tr3 @ [SendRawTransaction signed]
                   in case sendRawTransaction env (t + 4) signed of
                        Inl err \<Rightarrow> (tr4, Inl err)
                      | Inr signature \<Rightarrow>
                          (let tr5 = tr4 @ [ConfirmTransaction signature (blockhash latest)
                                              (lastValidBlockHeight latest)]
                           in case confirmTransaction env (t + 5) signature (blockhash latest)
                                     (lastValidBlockHeight latest) of
                                Inl err \<Rightarrow> (tr5, Inl err)
                              | Inr _ \<Rightarrow> (tr5, Inr signature)))))"

section \<open>The first \<open>handleSubmit\<close> (\<open>CreateStablecoin.tsx\<close>, lines 91 to 170)\<close>

text \<open>
  \<open>CreateStablecoin.tsx\<close> holds two versions of the component, one after the other.
  This section follows the \<open>handleSubmit\<close> of the first, the next section that of the
  second. The form is reset to the value below after a successful call.
\<close>

definition emptyForm :: formData where
  "emptyForm = \<lparr>name = [], symbol = [], currency = ''USD'', icon = [], bondMint = []\<rparr>"

text \<open>
  The \<open>try\<close> block. Its result is the form data it leaves behind, or the thrown value.
  An address that does not parse is reported by a toast and ends the block by \<open>return\<close>.
\<close>

definition handleSubmit1_try ::
  "('e, 'n) env \<Rightarrow> pubkey \<Rightarrow> formData \<Rightarrow> nat \<Rightarrow> event list \<times> (jserror + formData)" where
  "handleSubmit1_try env pk fd t =
     (let stablecoinData = keypairGenerate env (t + 1);
          stablecoinMint = keypairGenerate env (t + 2);
          tr3 = [SetLoading True, KeypairGenerate stablecoinData, KeypairGenerate stablecoinMint,
                 NewPublicKey (bondMint fd)]
      in case newPublicKey env (bondMint fd) of
           Inl err \<Rightarrow>
             (tr3 @ [ToastError ''Invalid bond mint address. Please select a valid bond.''],
              Inr fd)
         | Inr bondMintPubkey \<Rightarrow>
             (let call = \<lparr>pc_name = name fd, pc_symbol = symbol fd, pc_decimals = 9,
                          pc_iconUrl = icon fd, pc_targetCurrency = currency fd,
                          pc_bondMint = bondMintPubkey,
                          pc_stablecoinData = keypair_publicKey stablecoinData,
                          pc_stablecoinMint = keypair_publicKey stablecoinMint,
                          pc_signers = [stablecoinData, stablecoinMint]\<rparr>;
                  tr4 = tr3 @ [ProgramCreateStablecoin call]
              in case programCreateStablecoin env (t + 4) call of
                   Inl err \<Rightarrow> (tr4, Inl err)
                 | Inr result \<Rightarrow>
                     (tr4 @ [ToastSuccess ''Stablecoin created successfully!''], Inr emptyForm)))"

text \<open>\<open>error instanceof Error ? error.message : 'An unexpected error occurred'\<close>\<close>

fun errorMessage1 :: "jserror \<Rightarrow> string" where
  "errorMessage1 (Error m) = m"
| "errorMessage1 NonError = ''An unexpected error occurred''"

text \<open>The guard, the \<open>try\<close> block, its \<open>catch\<close> and its \<open>finally\<close>.\<close>

definition handleSubmit1 ::
  "('e, 'n) env \<Rightarrow> hooks \<Rightarrow> formData \<Rightarrow> nat \<Rightarrow> event list \<times> formData" where
  "handleSubmit1 env h fd t =
     (case publicKey h of
        None \<Rightarrow> ([ToastError ''Please connect your wallet first''], fd)
      | Some pk \<Rightarrow>
          if \<not> hasConnection h then ([ToastError ''Please connect your wallet first''], fd)
          else (case handleSubmit1_try env pk fd t of
                  (tr, Inr fd') \<Rightarrow> (tr @ [SetLoading False], fd')
                | (tr, Inl err) \<Rightarrow>
                    (tr @ [ToastError (''Failed to create stablecoin: '' @ errorMessage1 err),
                           SetLoading False], fd)))"

section \<open>The second \<open>handleSubmit\<close> (\<open>CreateStablecoin.tsx\<close>, lines 451 to 546)\<close>

text \<open>
  Lines 499 to 516, once \<open>new PublicKey(formData.bondMint)\<close> has returned
  \<open>bondMintPubkey\<close>: the object given to \<open>.accounts\<close>, and the create-stablecoin
  instruction built in place.
\<close>

definition handleSubmit2_accounts ::
  "pubkey \<Rightarrow> keypair \<Rightarrow> keypair \<Rightarrow> pubkey \<Rightarrow> (string \<times> pubkey) list" where
  "handleSubmit2_accounts pk stablecoinData stablecoinMint bondMintPubkey =
     [(''authority'', pk),
      (''stablecoinData'', keypair_publicKey stablecoinData),
      (''stablecoinMint'', keypair_publicKey stablecoinMint),
      (''bondMint'', bondMintPubkey),
      (''tokenProgram'', TOKEN_PROGRAM_ID),
      (''systemProgram'', SystemProgram_programId),
      (''rent'', SYSVAR_RENT_PUBKEY)]"

definition handleSubmit2_createStablecoin ::
  "('e, 'n) env \<Rightarrow> pubkey \<Rightarrow> keypair \<Rightarrow> keypair \<Rightarrow> pubkey \<Rightarrow> formData \<Rightarrow>
     jserror + instruction" where
  "handleSubmit2_createStablecoin env pk stablecoinData stablecoinMint bondMintPubkey fd =
     methods_createStablecoin env
       (name fd) (symbol fd) 6 (if icon fd = [] then [] else icon fd) (currency fd)
       (handleSubmit2_accounts pk stablecoinData stablecoinMint bondMintPubkey)"

text \<open>Lines 534 to 538: what the flow does with \<open>confirmation.value.err\<close>.\<close>

definition afterConfirmation ::
  "('e, 'n) env \<Rightarrow> 'e option \<Rightarrow> event list \<times> (jserror + unit)" where
  "afterConfirmation env err =
     (case err of
        Some e \<Rightarrow> ([], Inl (Error (''Transaction failed: '' @ errToString env e)))
      | None \<Rightarrow> ([ToastSuccess ''Stablecoin created successfully!''], Inr ()))"

text \<open>
  The \<open>try\<close> block, lines 460 to 538. The arguments of \<open>transaction.add\<close> are evaluated
  from left to right, so the address is parsed after the first two instructions are built.
  The event at position \<open>i\<close> of the trace happens at clock \<open>t + i\<close>.
\<close>

definition handleSubmit2_try ::
  "('e, 'n) env \<Rightarrow> pubkey \<Rightarrow> formData \<Rightarrow> nat \<Rightarrow> event list \<times> (jserror + unit)" where
  "handleSubmit2_try env pk fd t =
     (let stablecoinMint = keypairGenerate env (t + 1);
          stablecoinData = keypairGenerate env (t + 2);
          tr2 = [SetLoading True, KeypairGenerate stablecoinMint, KeypairGenerate stablecoinData]
      in case getLatestBlockhash env (t + 3) of
           Inl err \<Rightarrow> (tr2 @ [GetLatestBlockhash (Inl err)], Inl err)
         | Inr latest \<Rightarrow>
      (let tx0 = newTransaction pk (blockhash latest) (lastValidBlockHeight latest);
           tr5 = tr2 @ [GetLatestBlockhash (Inr latest),
                        NewTransaction pk (blockhash latest) (lastValidBlockHeight latest),
                        GetMinimumBalanceForRentExemptMint]
       in case getMinimumBalanceForRentExemptMint env (t + 5) of
            Inl err \<Rightarrow> (tr5, Inl err)
          | Inr mintRent \<Rightarrow>
      (let ix1 = SystemCreateAccount pk (keypair_publicKey stablecoinMint) MINT_SIZE mintRent
                   TOKEN_PROGRAM_ID;
           ix2 = InitializeMint (keypair_publicKey stablecoinMint) 6 pk pk;
           tr6 = tr5 @ [NewPublicKey (bondMint fd)]
       in case newPublicKey env (bondMint fd) of
            Inl err \<Rightarrow> (tr6, Inl err)
          | Inr bondMintPubkey \<Rightarrow>
      (case handleSubmit2_createStablecoin env pk stablecoinData stablecoinMint bondMintPubkey
              fd of
            Inl err \<Rightarrow> (tr6, Inl err)
          | Inr ix3 \<Rightarrow>
      (let tx1 = transaction_add tx0 [ix1, ix2, ix3];
           tx2 = transaction_sign tx1 [stablecoinMint, stablecoinData];
           tr9 = tr6 @ [TransactionAdd [ix1, ix2, ix3],
                        TransactionSign [stablecoinMint, stablecoinData],
                        WalletSendTransaction tx2 [stablecoinMint, stablecoinData]]
       in case walletSendTransaction env (t + 9) tx2 of
            Inl err \<Rightarrow> (tr9, Inl err)
          | Inr signature \<Rightarrow>
      (let tr10 = tr9 @ [ConfirmTransaction signature (blockhash latest)
                           (lastValidBlockHeight latest)]
       in case confirmTransaction env (t + 10) signature (blockhash latest)
                 (lastValidBlockHeight latest) of
            Inl err \<Rightarrow> (tr10, Inl err)
          | Inr confirmation_err \<Rightarrow>
              (case afterConfirmation env confirmation_err of
                 (tr, r) \<Rightarrow> (tr10 @ tr, r))))))))"

text \<open>\<open>error.message || 'Failed to create stablecoin'\<close>\<close>

fun errorMessage2 :: "jserror \<Rightarrow> string" where
  "errorMessage2 (Error m) = (if m = [] then ''Failed to create stablecoin'' else m)"
| "errorMessage2 NonError = ''Failed to create stablecoin''"

text \<open>
  The guard, the \<open>try\<close> block, its \<open>catch\<close> and its \<open>finally\<close>. \<open>program\<close> is \<open>null\<close>
  exactly when the connection or the public key is missing (lines 343 to 353).
\<close>

definition handleSubmit2 :: "('e, 'n) env \<Rightarrow> hooks \<Rightarrow> formData \<Rightarrow> nat \<Rightarrow> event list" where
  "handleSubmit2 env h fd t =
     (case publicKey h of
        None \<Rightarrow> [ToastError ''Please connect your wallet first'']
      | Some pk \<Rightarrow>
          if \<not> hasConnection h then [ToastError ''Please connect your wallet first'']
          else (case handleSubmit2_try env pk fd t of
                  (tr, Inr _) \<Rightarrow> tr @ [SetLoading False]
                | (tr, Inl err) \<Rightarrow> tr @ [ToastError (errorMessage2 err), SetLoading False]))"

section \<open>Reading a trace\<close>

text \<open>The calls that go to the network: RPC reads, broadcast, confirmation, and the
  program call of the first \<open>handleSubmit\<close>, which sends the transaction.\<close>

fun isNetworkCall :: "event \<Rightarrow> bool" where
  "isNetworkCall (GetLatestBlockhash _) = True"
| "isNetworkCall GetMinimumBalanceForRentExemptMint = True"
| "isNetworkCall (WalletSendTransaction _ _) = True"
| "isNetworkCall (ConfirmTransaction _ _ _) = True"
| "isNetworkCall (ProgramCreateStablecoin _) = True"
| "isNetworkCall (SendRawTransaction _) = True"
| "isNetworkCall (GetParsedTokenAccountsByOwner _ _) = True"
| "isNetworkCall _ = False"

fun isAppend :: "event \<Rightarrow> bool" where
  "isAppend (TransactionAdd _) = True"
| "isAppend _ = False"

fun isBinding :: "event \<Rightarrow> bool" where
  "isBinding (NewTransaction _ _ _) = True"
| "isBinding (SetRecentBlockhash _) = True"
| "isBinding (SetFeePayer _) = True"
| "isBinding _ = False"

fun isSigning :: "event \<Rightarrow> bool" where
  "isSigning (TransactionSign _) = True"
| "isSigning (WalletSignTransaction _) = True"
| "isSigning _ = False"

fun isBroadcast :: "event \<Rightarrow> bool" where
  "isBroadcast (WalletSendTransaction _ _) = True"
| "isBroadcast (SendRawTransaction _) = True"
| "isBroadcast _ = False"

fun isToast :: "event \<Rightarrow> bool" where
  "isToast (ToastError _) = True"
| "isToast (ToastSuccess _) = True"
| "isToast _ = False"

text \<open>No \<open>P\<close> event from the first \<open>Q\<close> event on; no \<open>P\<close> event before the first \<open>Q\<close> event.\<close>

definition noneAfter :: "(event \<Rightarrow> bool) \<Rightarrow> (event \<Rightarrow> bool) \<Rightarrow> event list \<Rightarrow> bool" where
  "noneAfter P Q tr = list_all (\<lambda>e. \<not> P e) (dropWhile (\<lambda>e. \<not> Q e) tr)"

definition noneBefore :: "(event \<Rightarrow> bool) \<Rightarrow> (event \<Rightarrow> bool) \<Rightarrow> event list \<Rightarrow> bool" where
  "noneBefore P Q tr = list_all (\<lambda>e. \<not> P e) (takeWhile (\<lambda>e. \<not> Q e) tr)"

text \<open>The decimals values an event hands to the ledger program or the token program.\<close>

fun decimalsIn :: "event \<Rightarrow> nat list" where
  "decimalsIn (ProgramCreateStablecoin call) = [pc_decimals call]"
| "decimalsIn (TransactionAdd ixs) = concat (map decimalsOf ixs)"
| "decimalsIn _ = []"

definition decimalsUsed :: "event list \<Rightarrow> nat list" where
  "decimalsUsed tr = concat (map decimalsIn tr)"

text \<open>The instruction lists of the transactions handed over for broadcast.\<close>

fun broadcastOf :: "event \<Rightarrow> transaction list" where
  "broadcastOf (WalletSendTransaction tx _) = [tx]"
| "broadcastOf (SendRawTransaction tx) = [tx]"
| "broadcastOf _ = []"

definition assembled :: "event list \<Rightarrow> transaction list" where
  "assembled tr = concat (map broadcastOf tr)"

text \<open>The answers of the successful blockhash fetches, the number of fetches, and the
  pairs given to confirmation polling.\<close>

fun fetchedOf :: "event \<Rightarrow> (string \<times> nat) list" where
  "fetchedOf (GetLatestBlockhash (Inr latest)) = [(blockhash latest, lastValidBlockHeight latest)]"
| "fetchedOf _ = []"

fun isFetch :: "event \<Rightarrow> bool" where
  "isFetch (GetLatestBlockhash _) = True"
| "isFetch _ = False"

fun confirmedOf :: "event \<Rightarrow> (string \<times> nat) list" where
  "confirmedOf (ConfirmTransaction _ bh h) = [(bh, h)]"
| "confirmedOf _ = []"

definition fetched :: "event list \<Rightarrow> (string \<times> nat) list" where
  "fetched tr = concat (map fetchedOf tr)"

definition confirmed :: "event list \<Rightarrow> (string \<times> nat) list" where
  "confirmed tr = concat (map confirmedOf tr)"

section \<open>A sample environment\<close>

text \<open>
  A node and a wallet that answer every call: the parser accepts one bond address, the
  node hands out a blockhash that changes with the clock, the wallet signs, and the
  confirmation carries the given \<open>value.err\<close>. The coder encodes a decimals value below
  256 and arguments that fit a buffer of 1000 bytes (four bytes of length before each of
  the four strings, one byte for the decimals).
\<close>

definition sampleBond :: string where
  "sampleBond = ''So11111111111111111111111111111111111111112''"

definition sampleEnv :: "transactionError option \<Rightarrow> (transactionError, int) env" where
  "sampleEnv confirmation_err =
     \<lparr>newPublicKey = (\<lambda>s. if s = sampleBond then Inr (PublicKey s)
                          else Inl (Error ''Invalid public key input'')),
      keypairGenerate =
        (\<lambda>t. if even t then Keypair (PublicKey ''EvenKey'') ''e'' else Keypair (PublicKey ''OddKey'') ''o''),
      getLatestBlockhash =
        (\<lambda>t. Inr \<lparr>blockhash = (if even t then ''EvenSlotHash'' else ''OddSlotHash''),
                   lastValidBlockHeight = 150 + t\<rparr>),
      getMinimumBalanceForRentExemptMint = (\<lambda>t. Inr 1461600),
      walletSendTransaction = (\<lambda>t tx. Inr ''sig''),
      confirmTransaction = (\<lambda>t s bh h. Inr confirmation_err),
      errToString = transactionError_toString,
      programCreateStablecoin = (\<lambda>t call. Inr ''sig''),
      walletSignTransaction = (\<lambda>t tx. Inr (signatures tx @ [PublicKey ''wallet''])),
      sendRawTransaction = (\<lambda>t tx. Inr ''sig''),
      getParsedTokenAccountsByOwner = (\<lambda>t owner mint. Inr []),
      instructionEncode =
        (\<lambda>a_name a_symbol a_decimals a_iconUrl a_targetCurrency.
           if \<not> a_decimals < 256 then Inl (Error ''value out of range'')
           else if length a_name + length a_symbol + length a_iconUrl
                     + length a_targetCurrency + 17 > 1000
           then Inl (Error ''encoding overruns Buffer'')
           else Inr ())\<rparr>"

definition sampleHooks :: hooks where
  "sampleHooks = \<lparr>publicKey = Some (PublicKey ''wallet''), hasConnection = True\<rparr>"

definition sampleParams :: createStablecoinParams where
  "sampleParams =
     \<lparr>p_name = ''Peso Stable'', p_symbol = ''MXNS'', p_decimals = 6, p_iconUrl = [],
      p_targetCurrency = ''MXN'', p_authority = PublicKey ''wallet'',
      p_stablecoinData = PublicKey ''EvenKey'', p_stablecoinMint = PublicKey ''OddKey'',
      p_bondMint = PublicKey sampleBond\<rparr>"

definition sampleForm :: "string \<Rightarrow> formData" where
  "sampleForm bond =
     \<lparr>name = ''Peso Stable'', symbol = ''MXNS'', currency = ''MXN'', icon = [], bondMint = bond\<rparr>"

section \<open>Unfolding the flows\<close>

lemma methods_createStablecoin_bound:
  "methods_createStablecoin env a b c d e
     [(''authority'', k1), (''stablecoinData'', k2), (''stablecoinMint'', k3), (''bondMint'', k4),
      (''tokenProgram'', k5), (''systemProgram'', k6), (''rent'', k7)]
   = (case instructionEncode env a b c d e of
        Inl err \<Rightarrow> Inl err
      | Inr _ \<Rightarrow> Inr (CreateStablecoinIx a b c d e [k1, k2, k3, k4, k5, k6, k7]))"
  by (simp add: methods_createStablecoin_def IDL_createStablecoin_accounts_def)

lemma icon_or_empty: "(if s = [] then [] else s) = (s :: string)"
  by simp

lemmas sample_defs = sampleEnv_def sampleHooks_def sampleForm_def sampleBond_def

lemmas flow1_defs = handleSubmit1_def handleSubmit1_try_def Let_def

lemmas flow2_defs = handleSubmit2_def handleSubmit2_try_def handleSubmit2_createStablecoin_def
  handleSubmit2_accounts_def methods_createStablecoin_bound icon_or_empty afterConfirmation_def
  newTransaction_def transaction_add_def transaction_sign_def Let_def

lemmas balance_defs = checkBondBalance_def checkBondBalance_try_def Let_def

lemmas trace_defs = noneAfter_def noneBefore_def decimalsUsed_def assembled_def fetched_def
  confirmed_def

section \<open>The balance precondition\<close>

text \<open>
  C7: when the wallet is connected, the bond address parses and the token-account query
  succeeds with an empty list, the \<open>try\<close> block of \<open>checkBondBalance\<close> ends without
  throwing and the balance it sets is 0.
\<close>

theorem checkBondBalance_no_account_is_zero:
  assumes "publicKey h = Some owner" and "hasConnection h"
    and "newPublicKey env bondMintStr = Inr bondMintPubkey"
    and "getParsedTokenAccountsByOwner env (t + 1) owner bondMintPubkey = Inr []"
  shows "snd (checkBondBalance_try env owner bondMintStr t) = Inr (Some 0) \<and>
         snd (checkBondBalance env h bondMintStr bondBalance t) = Some 0"
  using assms by (simp add: balance_defs)

theorem checkBondBalance_no_account_is_zero_witness:
  "snd (checkBondBalance_try (sampleEnv None) (PublicKey ''wallet'') sampleBond 0) =
     Inr (Some 0) \<and>
   snd (checkBondBalance (sampleEnv None) sampleHooks sampleBond None 0) = Some 0"
  using checkBondBalance_no_account_is_zero [of sampleHooks "PublicKey ''wallet''"
      "sampleEnv None" sampleBond "PublicKey sampleBond" 0 None]
  by (simp add: sample_defs)

text \<open>
  C9: when the token-account query itself throws, the \<open>catch\<close> sets the balance to 0 and
  nothing reaches the caller; the trace and the balance are those of a query that found
  no account, so the caller cannot tell the two apart.
\<close>

theorem checkBondBalance_failed_query_reads_zero:
  assumes "publicKey h = Some owner" and "hasConnection h"
    and "newPublicKey env bondMintStr = Inr bondMintPubkey"
    and "getParsedTokenAccountsByOwner env (t + 1) owner bondMintPubkey = Inl err"
  shows "snd (checkBondBalance_try env owner bondMintStr t) = Inl err \<and>
         snd (checkBondBalance env h bondMintStr bondBalance t) = Some 0 \<and>
         checkBondBalance env h bondMintStr bondBalance t =
         checkBondBalance (env\<lparr>getParsedTokenAccountsByOwner := \<lambda>t owner mint. Inr []\<rparr>)
           h bondMintStr bondBalance t"
  using assms by (simp add: balance_defs)

theorem checkBondBalance_failed_query_reads_zero_witness:
  "checkBondBalance
     ((sampleEnv None)\<lparr>getParsedTokenAccountsByOwner :=
         \<lambda>t owner mint. Inl (Error ''429 Too Many Requests'')\<rparr>)
     sampleHooks sampleBond None 0 =
   ([NewPublicKey sampleBond,
     GetParsedTokenAccountsByOwner (PublicKey ''wallet'') (PublicKey sampleBond)], Some 0) \<and>
   checkBondBalance (sampleEnv None) sampleHooks sampleBond None 0 =
   ([NewPublicKey sampleBond,
     GetParsedTokenAccountsByOwner (PublicKey ''wallet'') (PublicKey sampleBond)], Some 0)"
  using checkBondBalance_failed_query_reads_zero [of sampleHooks "PublicKey ''wallet''"
      "(sampleEnv None)\<lparr>getParsedTokenAccountsByOwner :=
         \<lambda>t owner mint. Inl (Error ''429 Too Many Requests'')\<rparr>"
      sampleBond "PublicKey sampleBond" 0 "Error ''429 Too Many Requests''" None]
  by (simp add: sample_defs balance_defs)

text \<open>
  C10: when the query returns a non-empty list, the balance set is the amount of the
  first account; the accounts after it do not matter, so the result is that of the list
  cut down to its first entry (and not the sum over the list).
\<close>

theorem checkBondBalance_first_account_only:
  assumes "publicKey h = Some owner" and "hasConnection h"
    and "newPublicKey env bondMintStr = Inr bondMintPubkey"
    and "getParsedTokenAccountsByOwner env (t + 1) owner bondMintPubkey = Inr (a # rest)"
  shows "snd (checkBondBalance env h bondMintStr bondBalance t) = uiAmount a \<and>
         checkBondBalance env h bondMintStr bondBalance t =
         checkBondBalance (env\<lparr>getParsedTokenAccountsByOwner := \<lambda>t owner mint. Inr [a]\<rparr>)
           h bondMintStr bondBalance t"
  using assms by (simp add: balance_defs)

theorem checkBondBalance_first_account_only_witness:
  "snd (checkBondBalance
     ((sampleEnv None)\<lparr>getParsedTokenAccountsByOwner :=
         \<lambda>t owner mint. Inr [\<lparr>uiAmount = Some 5\<rparr>, \<lparr>uiAmount = Some 7\<rparr>]\<rparr>)
     sampleHooks sampleBond None 0) = Some 5 \<and> (5::int) \<noteq> 5 + 7"
  using checkBondBalance_first_account_only [of sampleHooks "PublicKey ''wallet''"
      "(sampleEnv None)\<lparr>getParsedTokenAccountsByOwner :=
         \<lambda>t owner mint. Inr [\<lparr>uiAmount = Some 5\<rparr>, \<lparr>uiAmount = Some 7\<rparr>]\<rparr>"
      sampleBond "PublicKey sampleBond" 0 "\<lparr>uiAmount = Some 5\<rparr>"
      "[\<lparr>uiAmount = Some 7\<rparr>]" None]
  by (simp add: sample_defs balance_defs)

section \<open>The instruction builder\<close>

text \<open>
  C5: every create-stablecoin instruction that is built, by the method
  \<open>createStablecoin\<close> of \<open>StablecoinProgram\<close> or by the second \<open>handleSubmit\<close>, carries
  its accounts in the order authority, stablecoinData, stablecoinMint, bondMint, token
  program, system program, rent sysvar, whatever the input values are; and the build
  throws exactly when the coder cannot encode the arguments, never over the accounts.
\<close>

theorem createStablecoin_account_order:
  "(createStablecoin env params = Inr ix \<longrightarrow>
      accountKeys ix =
        [p_authority params, p_stablecoinData params, p_stablecoinMint params,
         p_bondMint params, TOKEN_PROGRAM_ID, SystemProgram_programId, SYSVAR_RENT_PUBKEY]) \<and>
   (handleSubmit2_createStablecoin env pk stablecoinData stablecoinMint bondMintPubkey fd =
      Inr ix' \<longrightarrow>
      accountKeys ix' =
        [pk, keypair_publicKey stablecoinData, keypair_publicKey stablecoinMint,
         bondMintPubkey, TOKEN_PROGRAM_ID, SystemProgram_programId, SYSVAR_RENT_PUBKEY]) \<and>
   isl (createStablecoin env params) =
     isl (instructionEncode env (p_name params) (p_symbol params) (p_decimals params)
            (p_iconUrl params) (p_targetCurrency params)) \<and>
   isl (handleSubmit2_createStablecoin env pk stablecoinData stablecoinMint bondMintPubkey fd) =
     isl (instructionEncode env (name fd) (symbol fd) 6 (icon fd) (currency fd))"
  by (auto simp add: createStablecoin_def createStablecoin_accounts_def
      handleSubmit2_createStablecoin_def handleSubmit2_accounts_def
      methods_createStablecoin_bound icon_or_empty split: sum.splits)

theorem createStablecoin_account_order_witness:
  "createStablecoin (sampleEnv None) sampleParams =
     Inr (CreateStablecoinIx ''Peso Stable'' ''MXNS'' 6 [] ''MXN''
            [PublicKey ''wallet'', PublicKey ''EvenKey'', PublicKey ''OddKey'',
             PublicKey sampleBond, TOKEN_PROGRAM_ID, SystemProgram_programId,
             SYSVAR_RENT_PUBKEY]) \<and>
   handleSubmit2_createStablecoin (sampleEnv None) (PublicKey ''wallet'')
     (Keypair (PublicKey ''EvenKey'') ''e'') (Keypair (PublicKey ''OddKey'') ''o'')
     (PublicKey sampleBond) (sampleForm sampleBond) =
     Inr (CreateStablecoinIx ''Peso Stable'' ''MXNS'' 6 [] ''MXN''
            [PublicKey ''wallet'', PublicKey ''EvenKey'', PublicKey ''OddKey'',
             PublicKey sampleBond, TOKEN_PROGRAM_ID, SystemProgram_programId,
             SYSVAR_RENT_PUBKEY]) \<and>
   isl (createStablecoin (sampleEnv None) (sampleParams\<lparr>p_decimals := 256\<rparr>))"
  using createStablecoin_account_order [of "sampleEnv None" sampleParams
      "CreateStablecoinIx ''Peso Stable'' ''MXNS'' 6 [] ''MXN''
            [PublicKey ''wallet'', PublicKey ''EvenKey'', PublicKey ''OddKey'',
             PublicKey sampleBond, TOKEN_PROGRAM_ID, SystemProgram_programId,
             SYSVAR_RENT_PUBKEY]"
      "PublicKey ''wallet''" "Keypair (PublicKey ''EvenKey'') ''e''"
      "Keypair (PublicKey ''OddKey'') ''o''" "PublicKey sampleBond" "sampleForm sampleBond"
      "CreateStablecoinIx ''Peso Stable'' ''MXNS'' 6 [] ''MXN''
            [PublicKey ''wallet'', PublicKey ''EvenKey'', PublicKey ''OddKey'',
             PublicKey sampleBond, TOKEN_PROGRAM_ID, SystemProgram_programId,
             SYSVAR_RENT_PUBKEY]"]
  by (simp add: createStablecoin_def createStablecoin_accounts_def
      handleSubmit2_createStablecoin_def handleSubmit2_accounts_def
      methods_createStablecoin_bound icon_or_empty sample_defs sampleParams_def)

section \<open>The assembled transaction\<close>

text \<open>
  C4: every transaction the second \<open>handleSubmit\<close> hands over for broadcast holds
  exactly three instructions in the order create-account, initialize-mint,
  create-stablecoin, whatever the form holds and whatever the environment answers. For a
  valid spec (the bond address parses and the coder encodes the arguments), with the
  wallet connected and the blockhash fetch and the rent query answered, exactly one such
  transaction is assembled.
\<close>

theorem assembled_three_instructions_in_order:
  "list_all
     (\<lambda>tx. map kind (instructions tx) = [KCreateAccount, KInitializeMint, KCreateStablecoin])
     (assembled (handleSubmit2 env h fd t)) \<and>
   (publicKey h = Some pk \<and> hasConnection h \<and>
    getLatestBlockhash env (t + 3) = Inr latest \<and>
    getMinimumBalanceForRentExemptMint env (t + 5) = Inr mintRent \<and>
    newPublicKey env (bondMint fd) = Inr bondMintPubkey \<and>
    instructionEncode env (name fd) (symbol fd) 6 (icon fd) (currency fd) = Inr () \<longrightarrow>
    map (\<lambda>tx. map kind (instructions tx)) (assembled (handleSubmit2 env h fd t)) =
      [[KCreateAccount, KInitializeMint, KCreateStablecoin]])"
  by (simp add: flow2_defs trace_defs split: sum.split option.split)

theorem assembled_three_instructions_in_order_witness:
  "map (\<lambda>tx. map kind (instructions tx))
     (assembled (handleSubmit2 (sampleEnv None) sampleHooks (sampleForm sampleBond) 0)) =
   [[KCreateAccount, KInitializeMint, KCreateStablecoin]]"
  using assembled_three_instructions_in_order [of "sampleEnv None" sampleHooks
      "sampleForm sampleBond" 0 "PublicKey ''wallet''"
      "\<lparr>blockhash = ''OddSlotHash'', lastValidBlockHeight = 153\<rparr>" 1461600
      "PublicKey sampleBond"]
  by (simp add: sample_defs)

section \<open>Binding, appending, signing\<close>

text \<open>
  C3 as stated does not hold: the second \<open>handleSubmit\<close> constructs the transaction with
  its fee payer and blockhash first and adds the instructions afterwards.
\<close>

theorem append_after_binding_counterexample:
  "\<not> noneAfter isAppend isBinding
       (handleSubmit2 (sampleEnv None) sampleHooks (sampleForm sampleBond) 0)"
  by (simp add: flow2_defs sample_defs trace_defs)

text \<open>
  C3, amended: in every attempt of the second \<open>handleSubmit\<close> no instruction is added
  before the envelope is bound to its fee payer and blockhash, none is added once signing
  or the broadcast has begun, and there is at most one append step.
\<close>

theorem append_between_binding_and_signing:
  "noneBefore isAppend isBinding (handleSubmit2 env h fd t) \<and>
   noneAfter isAppend isSigning (handleSubmit2 env h fd t) \<and>
   noneAfter isAppend isBroadcast (handleSubmit2 env h fd t) \<and>
   length (filter isAppend (handleSubmit2 env h fd t)) \<le> 1"
  by (simp add: flow2_defs trace_defs split: option.splits sum.splits)

theorem append_between_binding_and_signing_witness:
  "noneBefore isAppend isBinding
     (handleSubmit2 (sampleEnv None) sampleHooks (sampleForm sampleBond) 0) \<and>
   noneAfter isAppend isSigning
     (handleSubmit2 (sampleEnv None) sampleHooks (sampleForm sampleBond) 0) \<and>
   length (filter isAppend
     (handleSubmit2 (sampleEnv None) sampleHooks (sampleForm sampleBond) 0)) = 1 \<and>
   length (filter isBinding
     (handleSubmit2 (sampleEnv None) sampleHooks (sampleForm sampleBond) 0)) = 1"
  using append_between_binding_and_signing
    [of "sampleEnv None" sampleHooks "sampleForm sampleBond" 0]
  by (simp add: flow2_defs sample_defs)

section \<open>One blockhash per attempt\<close>

lemma handleSubmit2_single_fetch:
  "length (filter isFetch (handleSubmit2 env h fd t)) \<le> 1 \<and>
   (confirmed (handleSubmit2 env h fd t) \<noteq> [] \<longrightarrow>
      length (fetched (handleSubmit2 env h fd t)) = 1 \<and>
      confirmed (handleSubmit2 env h fd t) = fetched (handleSubmit2 env h fd t) \<and>
      map (\<lambda>tx. (recentBlockhash tx, tx_lastValidBlockHeight tx))
        (assembled (handleSubmit2 env h fd t)) =
      map (\<lambda>(bh, height). (Some bh, Some height)) (fetched (handleSubmit2 env h fd t)))"
  by (simp add: flow2_defs trace_defs del: concat_eq_Nil_conv Nil_eq_concat_conv
      split: sum.split option.split)

lemma sendTransaction_single_fetch:
  "length (filter isFetch (fst (sendTransaction env walletPk tx t))) \<le> 1 \<and>
   (confirmed (fst (sendTransaction env walletPk tx t)) \<noteq> [] \<longrightarrow>
      length (fetched (fst (sendTransaction env walletPk tx t))) = 1 \<and>
      confirmed (fst (sendTransaction env walletPk tx t)) =
        fetched (fst (sendTransaction env walletPk tx t)) \<and>
      map recentBlockhash (assembled (fst (sendTransaction env walletPk tx t))) =
      map (\<lambda>(bh, height). Some bh) (fetched (fst (sendTransaction env walletPk tx t))))"
  by (simp add: sendTransaction_def Let_def trace_defs del: concat_eq_Nil_conv Nil_eq_concat_conv
      split: sum.split option.split)

text \<open>
  C6: an attempt fetches the latest blockhash at most once. Whenever confirmation is
  polled, exactly one fetch has succeeded, the blockhash and last valid block height given
  to \<open>confirmTransaction\<close> are the pair that fetch returned, and the transaction handed
  over for broadcast is bound to that same blockhash (and, in \<open>handleSubmit\<close>, to that
  same height). This holds for the second \<open>handleSubmit\<close> and for \<open>sendTransaction\<close> of
  \<open>StablecoinProgram\<close>.
\<close>

theorem confirmation_polls_fetched_pair:
  "length (filter isFetch (handleSubmit2 env h fd t)) \<le> 1 \<and>
   (confirmed (handleSubmit2 env h fd t) \<noteq> [] \<longrightarrow>
      length (fetched (handleSubmit2 env h fd t)) = 1 \<and>
      confirmed (handleSubmit2 env h fd t) = fetched (handleSubmit2 env h fd t) \<and>
      map (\<lambda>tx. (recentBlockhash tx, tx_lastValidBlockHeight tx))
        (assembled (handleSubmit2 env h fd t)) =
      map (\<lambda>(bh, height). (Some bh, Some height)) (fetched (handleSubmit2 env h fd t))) \<and>
   length (filter isFetch (fst (sendTransaction env walletPk tx t'))) \<le> 1 \<and>
   (confirmed (fst (sendTransaction env walletPk tx t')) \<noteq> [] \<longrightarrow>
      length (fetched (fst (sendTransaction env walletPk tx t'))) = 1 \<and>
      confirmed (fst (sendTransaction env walletPk tx t')) =
        fetched (fst (sendTransaction env walletPk tx t')) \<and>
      map recentBlockhash (assembled (fst (sendTransaction env walletPk tx t'))) =
      map (\<lambda>(bh, height). Some bh) (fetched (fst (sendTransaction env walletPk tx t'))))"
  using handleSubmit2_single_fetch [of env h fd t]
    sendTransaction_single_fetch [of env walletPk tx t']
  by blast

theorem confirmation_polls_fetched_pair_witness:
  "confirmed (handleSubmit2 (sampleEnv None) sampleHooks (sampleForm sampleBond) 0) =
     [(''OddSlotHash'', 153)] \<and>
   fetched (handleSubmit2 (sampleEnv None) sampleHooks (sampleForm sampleBond) 0) =
     [(''OddSlotHash'', 153)] \<and>
   map (\<lambda>tx. (recentBlockhash tx, tx_lastValidBlockHeight tx))
     (assembled (handleSubmit2 (sampleEnv None) sampleHooks (sampleForm sampleBond) 0)) =
     [(Some ''OddSlotHash'', Some 153)] \<and>
   confirmed (fst (sendTransaction (sampleEnv None) (PublicKey ''wallet'')
     (newTransaction (PublicKey ''wallet'') ''StaleHash'' 100) 4)) =
     [(''EvenSlotHash'', 154)] \<and>
   map recentBlockhash (assembled (fst (sendTransaction (sampleEnv None) (PublicKey ''wallet'')
     (newTransaction (PublicKey ''wallet'') ''StaleHash'' 100) 4))) =
     [Some ''EvenSlotHash'']"
  using confirmation_polls_fetched_pair [of "sampleEnv None" sampleHooks
      "sampleForm sampleBond" 0 "PublicKey ''wallet''"
      "newTransaction (PublicKey ''wallet'') ''StaleHash'' 100" 4]
  by (simp add: flow2_defs sendTransaction_def sample_defs trace_defs)

section \<open>The outcome of a confirmed transaction\<close>




section \<open>Where the two versions of \<open>handleSubmit\<close> part\<close>

text \<open>
  Whatever the environment answers, the first \<open>handleSubmit\<close> hands only the value 9
  on as decimals and the second only the value 6.
\<close>

lemma decimals_of_each_handler:
  "list_all (\<lambda>d. d = 9) (decimalsUsed (fst (handleSubmit1 env h fd t))) \<and>
   list_all (\<lambda>d. d = 6) (decimalsUsed (handleSubmit2 env h fd t))"
  by (simp add: flow1_defs flow2_defs decimalsUsed_def split: sum.split option.split)

text \<open>
  The first \<open>handleSubmit\<close> makes no network call when the bond address does not parse.
  The second, with a wallet connected, makes its first network call right after the two
  key pairs are generated, before the address is looked at.
\<close>

lemma handleSubmit1_validates_before_network:
  assumes "newPublicKey env (bondMint fd) = Inl err"
  shows "filter isNetworkCall (fst (handleSubmit1 env h fd t)) = []"
  using assms by (simp add: flow1_defs split: option.split)

lemma handleSubmit2_first_network_call:
  assumes "publicKey h = Some pk" and "hasConnection h"
  shows "takeWhile (\<lambda>e. \<not> isNetworkCall e) (handleSubmit2 env h fd t) =
           [SetLoading True, KeypairGenerate (keypairGenerate env (t + 1)),
            KeypairGenerate (keypairGenerate env (t + 2))] \<and>
         filter isNetworkCall (handleSubmit2 env h fd t) \<noteq> []"
  using assms by (simp add: flow2_defs split: sum.split option.split)

text \<open>
  C1: for one and the same submission the first \<open>handleSubmit\<close> passes decimals 9 to the
  program call, the second passes 6 to the initialize-mint instruction and 6 to the
  create-stablecoin instruction.
\<close>

theorem decimals_differ_between_submit_handlers:
  "decimalsUsed (fst (handleSubmit1 (sampleEnv None) sampleHooks (sampleForm sampleBond) 0)) =
     [9] \<and>
   decimalsUsed (handleSubmit2 (sampleEnv None) sampleHooks (sampleForm sampleBond) 0) =
     [6, 6]"
  by (simp add: flow1_defs flow2_defs sample_defs trace_defs)

text \<open>
  C2: with the bond field \<open>not-an-address\<close> the first \<open>handleSubmit\<close> stops with no
  network call made, while the second has already fetched the blockhash and queried the
  rent when the address fails to parse.
\<close>

theorem second_handleSubmit_fetches_before_address_check:
  "filter isNetworkCall
     (fst (handleSubmit1 (sampleEnv None) sampleHooks (sampleForm ''not-an-address'') 0)) =
     [] \<and>
   filter isNetworkCall
     (handleSubmit2 (sampleEnv None) sampleHooks (sampleForm ''not-an-address'') 0) =
     [GetLatestBlockhash (Inr \<lparr>blockhash = ''OddSlotHash'', lastValidBlockHeight = 153\<rparr>),
      GetMinimumBalanceForRentExemptMint] \<and>
   filter isToast
     (handleSubmit2 (sampleEnv None) sampleHooks (sampleForm ''not-an-address'') 0) =
     [ToastError ''Invalid public key input'']"
  by (simp add: flow1_defs flow2_defs sample_defs trace_defs)

end
